theory Spec2Isabelle
  imports Main "HOL-Library.Char_ord" "HOL-Library.List_Lexorder" "HOL-Library.Multiset"
begin

section \<open>Shared data: errors, dictionaries, paths\<close>

text \<open>
  The three stores of the repository (\<^verbatim>\<open>meta.py\<close>, \<^verbatim>\<open>jars.py\<close>, \<^verbatim>\<open>index.py\<close>) are
  pydantic models that are mutated in place and raise plain \<^verbatim>\<open>Exception\<close>s. Here every
  operation takes the object and returns it next to its outcome: \<open>Inr\<close> the returned value, or
  \<open>Inl\<close> the error that was raised, together with the object as it stands at that moment, so
  that a partial mutation before a raise stays visible.

  Modelling decisions:
  \<^item> a \<^verbatim>\<open>datetime\<close> is an integer (a point on the time line); \<^verbatim>\<open>str\<close> and \<^verbatim>\<open>bytes\<close> are
    \<open>string\<close>, ordered lexicographically by character code as Python orders them;
  \<^item> a Python \<^verbatim>\<open>dict\<close> is an association list in insertion order;
  \<^item> a \<^verbatim>\<open>Path\<close> is the string of its parts joined by \<^verbatim>\<open>/\<close>; file names are taken to be
    single path components (pathlib's normalisation is not modelled);
  \<^item> logging is left out;
  \<^item> the collaborators (SHA-1, JSON parsing, HTTP, zip reading, UTF-8 decoding and the
    mapping-io subprocess) are the fields of an environment record.
\<close>

datatype error =
    MetaJarMismatch          \<comment> \<open>\<^verbatim>\<open>meta.py:54\<close>\<close>
  | IndexMappingMismatch     \<comment> \<open>\<^verbatim>\<open>index.py:54\<close>\<close>
  | MultiVersionBundle       \<comment> \<open>\<^verbatim>\<open>jars.py:96\<close>\<close>
  | MappingIoError           \<comment> \<open>\<^verbatim>\<open>jars.py:51\<close>\<close>
  | ReleaseTimeNotFound      \<comment> \<open>\<^verbatim>\<open>jars.py:146\<close>, \<^verbatim>\<open>index.py:98\<close>\<close>
  | JSONDecodeError          \<comment> \<open>\<^verbatim>\<open>json.load\<close>\<close>
  | KeyError                 \<comment> \<open>a missing dictionary key or zip entry\<close>
  | ValueError               \<comment> \<open>\<^verbatim>\<open>datetime.fromisoformat\<close>\<close>
  | ConnectionError          \<comment> \<open>\<^verbatim>\<open>requests.get\<close>\<close>
  | BadZipFile               \<comment> \<open>\<^verbatim>\<open>ZipFile(...)\<close>\<close>
  | UnicodeDecodeError       \<comment> \<open>\<^verbatim>\<open>bytes.decode\<close>\<close>
  | FileNotFoundError        \<comment> \<open>reading a path that does not exist\<close>

type_synonym datetime = int
type_synonym bytes = string
type_synonym path = string
type_synonym 'v dict = "(string \<times> 'v) list"

text \<open>\<^verbatim>\<open>k in d\<close>, \<^verbatim>\<open>d[k]\<close> (as an option) and \<^verbatim>\<open>d[k] = v\<close>: an existing key keeps its place, a
  new key goes to the end.\<close>

definition dict_contains :: "'v dict \<Rightarrow> string \<Rightarrow> bool" where
  "dict_contains d k = (map_of d k \<noteq> None)"

fun dict_set :: "'v dict \<Rightarrow> string \<Rightarrow> 'v \<Rightarrow> 'v dict" where
  "dict_set [] k v = [(k, v)]"
| "dict_set ((k', v') # d) k v =
     (if k' = k then (k, v) # d else (k', v') # dict_set d k v)"

text \<open>\<^verbatim>\<open>util.sort_dict\<close> without a key: \<^verbatim>\<open>sorted(dict_in.items())\<close> compares the
  (key, value) tuples, and the keys of a dict differ, so the values are never compared.
  Python's sort is stable, as insertion sort is.\<close>

definition sort_dict :: "'v dict \<Rightarrow> 'v dict" where
  "sort_dict dict_in = sort_key fst dict_in"

text \<open>\<^verbatim>\<open>sorted(xs, key=f, reverse=True)\<close>: the keys of all items are computed first, in order
  (the first raise aborts), then the list is sorted in descending order of the keys, items of
  equal key keeping their order.\<close>

fun sort_keys :: "('a \<Rightarrow> error + 'k) \<Rightarrow> 'a list \<Rightarrow> error + ('k \<times> 'a) list" where
  "sort_keys f [] = Inr []"
| "sort_keys f (x # xs) =
     (case f x of
        Inl e \<Rightarrow> Inl e
      | Inr k \<Rightarrow> (case sort_keys f xs of
                   Inl e \<Rightarrow> Inl e
                 | Inr ks \<Rightarrow> Inr ((k, x) # ks)))"

definition sorted_reverse :: "('k::linorder \<times> 'a) list \<Rightarrow> 'a list" where
  "sorted_reverse ks = map snd (rev (sort_key fst (rev ks)))"

definition sort_dict_reverse ::
  "(string \<times> 'v \<Rightarrow> error + datetime) \<Rightarrow> 'v dict \<Rightarrow> error + 'v dict" where
  "sort_dict_reverse key dict_in =
     (case sort_keys key dict_in of
        Inl e \<Rightarrow> Inl e
      | Inr ks \<Rightarrow> Inr (sorted_reverse ks))"

text \<open>\<^verbatim>\<open>PurePath.suffix\<close>, \<^verbatim>\<open>stem\<close> and \<^verbatim>\<open>with_suffix\<close> on a file name: the suffix starts at
  the last dot, unless that dot is the first or the last character of the name.\<close>

definition path_suffix :: "string \<Rightarrow> string" where
  "path_suffix name =
     (let ext = rev (takeWhile (\<lambda>c. c \<noteq> CHR ''.'') (rev name));
          front = rev (tl (dropWhile (\<lambda>c. c \<noteq> CHR ''.'') (rev name)))
      in if CHR ''.'' \<in> set name \<and> front \<noteq> [] \<and> ext \<noteq> [] then CHR ''.'' # ext else [])"

definition path_stem :: "string \<Rightarrow> string" where
  "path_stem name = take (length name - length (path_suffix name)) name"

definition with_suffix :: "string \<Rightarrow> string \<Rightarrow> string" where
  "with_suffix name suffix = path_stem name @ suffix"

section \<open>\<^verbatim>\<open>meta.py\<close>\<close>

definition JAR_NAMES :: "string list" where
  "JAR_NAMES = [''client'', ''server'', ''windows_server'']"

record MetaJar =
  mj_version_id :: string
  mj_version_file_id :: string
  mj_version_release_time :: datetime
  mj_key :: string
  mj_sha1 :: string
  mj_url :: string

definition MetaJar_filename :: "MetaJar \<Rightarrow> string \<Rightarrow> string" where
  "MetaJar_filename self extension =
     mj_version_id self @ ''-'' @ mj_key self @ ''.'' @ extension"

definition MetaJar_update_kwargs ::
  "MetaJar \<Rightarrow> string \<Rightarrow> string \<Rightarrow> datetime \<Rightarrow> string \<Rightarrow> string \<Rightarrow> string
     \<Rightarrow> (error + bool) \<times> MetaJar" where
  "MetaJar_update_kwargs self version_id version_file_id version_release_time key sha1 url =
     (if mj_version_id self \<noteq> version_id then (Inl MetaJarMismatch, self)
      else if mj_version_file_id self \<noteq> version_file_id then (Inl MetaJarMismatch, self)
      else if mj_version_release_time self \<noteq> version_release_time
        then (Inl MetaJarMismatch, self)
      else if mj_key self \<noteq> key then (Inl MetaJarMismatch, self)
      else
        let dirty1 = (mj_sha1 self \<noteq> sha1);
            self1 = (if dirty1 then self\<lparr>mj_sha1 := sha1\<rparr> else self);
            dirty2 = (mj_url self1 \<noteq> url);
            self2 = (if dirty2 then self1\<lparr>mj_url := url\<rparr> else self1)
        in (Inr (dirty1 \<or> dirty2), self2))"

definition MetaJar_update :: "MetaJar \<Rightarrow> MetaJar \<Rightarrow> (error + bool) \<times> MetaJar" where
  "MetaJar_update self meta_jar =
     MetaJar_update_kwargs self (mj_version_id meta_jar) (mj_version_file_id meta_jar)
       (mj_version_release_time meta_jar) (mj_key meta_jar) (mj_sha1 meta_jar) (mj_url meta_jar)"

text \<open>The parsed descriptor. A field that is missing (\<^verbatim>\<open>KeyError\<close>) or a release time that
  \<^verbatim>\<open>datetime.fromisoformat\<close> rejects is \<open>None\<close>; the raise happens where the source reads it.\<close>

record download =
  dl_sha1 :: "string option"
  dl_url :: "string option"

record version_json_data =
  vj_id :: "string option"
  vj_releaseTime :: "datetime option"
  vj_downloads :: "download dict option"

text \<open>A descriptor file of \<^verbatim>\<open>mojang/versions\<close>: its name and its bytes.\<close>

record version_json =
  vf_name :: string
  vf_bytes :: bytes

text \<open>The collaborators.\<close>

record env =
  sha1_hexdigest :: "bytes \<Rightarrow> string"            \<comment> \<open>\<^verbatim>\<open>hashlib.sha1(b).hexdigest()\<close>\<close>
  json_load :: "bytes \<Rightarrow> version_json_data option" \<comment> \<open>\<^verbatim>\<open>json.load\<close>; \<open>None\<close> when it raises\<close>
  requests_get :: "string \<Rightarrow> bytes option"        \<comment> \<open>\<^verbatim>\<open>requests.get(url).content\<close>\<close>
  zip_file :: "bytes \<Rightarrow> (string \<rightharpoonup> bytes) option" \<comment> \<open>\<^verbatim>\<open>ZipFile\<close>: entry name to bytes\<close>
  decode_utf8 :: "bytes \<Rightarrow> string option"         \<comment> \<open>\<^verbatim>\<open>bytes.decode("utf-8")\<close>\<close>
  mapping_io_cli :: "bytes \<Rightarrow> bytes option"       \<comment> \<open>the converter: \<open>None\<close> on a non-zero exit\<close>

record MetaVersion =
  mv_id :: string
  mv_file_id :: string
  mv_release_time :: datetime
  mv_sha1 :: string
  mv_jars :: "MetaJar dict"

text \<open>\<^verbatim>\<open>datetime.min\<close> is the least datetime; any fixed value serves, since every path that leaves
  an empty version in a store overwrites its release time first.\<close>

definition datetime_min :: datetime where
  "datetime_min = 0"

definition MetaVersion_empty :: MetaVersion where
  "MetaVersion_empty =
     \<lparr>mv_id = '''', mv_file_id = '''', mv_release_time = datetime_min, mv_sha1 = '''',
      mv_jars = []\<rparr>"

text \<open>The loop of \<^verbatim>\<open>MetaVersion.update\<close> over the sorted downloads (lines 109 to 126).\<close>

fun MetaVersion_update_downloads ::
  "MetaVersion \<Rightarrow> download dict \<Rightarrow> (error + unit) \<times> MetaVersion" where
  "MetaVersion_update_downloads self [] = (Inr (), self)"
| "MetaVersion_update_downloads self ((download_name, dl) # rest) =
     (if download_name \<notin> set JAR_NAMES then MetaVersion_update_downloads self rest
      else
        (case dl_sha1 dl of
           None \<Rightarrow> (Inl KeyError, self)
         | Some s \<Rightarrow>
            (case dl_url dl of
               None \<Rightarrow> (Inl KeyError, self)
             | Some u \<Rightarrow>
                (case map_of (mv_jars self) download_name of
                   None \<Rightarrow>
                     MetaVersion_update_downloads
                       (self\<lparr>mv_jars :=
                          dict_set (mv_jars self) download_name
                            \<lparr>mj_version_id = mv_id self,
                             mj_version_file_id = mv_file_id self,
                             mj_version_release_time = mv_release_time self,
                             mj_key = download_name, mj_sha1 = s, mj_url = u\<rparr>\<rparr>)
                       rest
                 | Some existing \<Rightarrow>
                    (case MetaJar_update existing
                            \<lparr>mj_version_id = mv_id self,
                             mj_version_file_id = mv_file_id self,
                             mj_version_release_time = mv_release_time self,
                             mj_key = download_name, mj_sha1 = s, mj_url = u\<rparr> of
                       (Inl e, existing') \<Rightarrow>
                         (Inl e,
                          self\<lparr>mv_jars := dict_set (mv_jars self) download_name existing'\<rparr>)
                     | (Inr _, existing') \<Rightarrow>
                         MetaVersion_update_downloads
                           (self\<lparr>mv_jars := dict_set (mv_jars self) download_name existing'\<rparr>)
                           rest)))))"

text \<open>\<^verbatim>\<open>MetaVersion.update\<close>: the hash gate of line 97, then the four assignments of lines 104
  to 107, each after the read that can raise before it, the loop and the sort of line 129.\<close>

definition MetaVersion_update ::
  "env \<Rightarrow> MetaVersion \<Rightarrow> version_json \<Rightarrow> (error + bool) \<times> MetaVersion" where
  "MetaVersion_update ev self version_json =
     (if mv_sha1 self = sha1_hexdigest ev (vf_bytes version_json) then (Inr False, self)
      else
        (case json_load ev (vf_bytes version_json) of
           None \<Rightarrow> (Inl JSONDecodeError, self)
         | Some version_json_data \<Rightarrow>
            (case vj_id version_json_data of
               None \<Rightarrow> (Inl KeyError, self)
             | Some i \<Rightarrow>
                (case vj_releaseTime version_json_data of
                   None \<Rightarrow>
                     (Inl ValueError,
                      self\<lparr>mv_id := i, mv_file_id := path_stem (vf_name version_json)\<rparr>)
                 | Some t \<Rightarrow>
                    (case vj_downloads version_json_data of
                       None \<Rightarrow>
                         (Inl KeyError,
                          self\<lparr>mv_id := i, mv_file_id := path_stem (vf_name version_json),
                               mv_release_time := t,
                               mv_sha1 := sha1_hexdigest ev (vf_bytes version_json)\<rparr>)
                     | Some downloads \<Rightarrow>
                        (case MetaVersion_update_downloads
                                (self\<lparr>mv_id := i,
                                      mv_file_id := path_stem (vf_name version_json),
                                      mv_release_time := t,
                                      mv_sha1 := sha1_hexdigest ev (vf_bytes version_json)\<rparr>)
                                (sort_key fst downloads) of
                           (Inl e, self3) \<Rightarrow> (Inl e, self3)
                         | (Inr _, self3) \<Rightarrow>
                             (Inr True, self3\<lparr>mv_jars := sort_dict (mv_jars self3)\<rparr>)))))))"

record Meta =
  commit :: string
  minecraft :: "MetaVersion list"

definition Meta_empty :: Meta where
  "Meta_empty = \<lparr>commit = '''', minecraft = []\<rparr>"

text \<open>The search of lines 189 to 193: the index of the first version with the file's stem.\<close>

fun find_version :: "string \<Rightarrow> MetaVersion list \<Rightarrow> nat option" where
  "find_version stem [] = None"
| "find_version stem (existing_version # rest) =
     (if mv_file_id existing_version = stem then Some 0
      else map_option Suc (find_version stem rest))"

text \<open>The loop of \<^verbatim>\<open>Meta.update\<close> over the sorted descriptor files (lines 185 to 204); the
  version found or appended is updated where it stands in the list.\<close>

fun Meta_update_files ::
  "env \<Rightarrow> bool \<Rightarrow> Meta \<Rightarrow> version_json list \<Rightarrow> (error + bool) \<times> Meta" where
  "Meta_update_files ev dirty self [] = (Inr dirty, self)"
| "Meta_update_files ev dirty self (file # rest) =
     (let (i, versions) =
            (case find_version (path_stem (vf_name file)) (minecraft self) of
               Some i \<Rightarrow> (i, minecraft self)
             | None \<Rightarrow> (length (minecraft self), minecraft self @ [MetaVersion_empty]))
      in case MetaVersion_update ev (versions ! i) file of
           (Inl e, file_version) \<Rightarrow>
             (Inl e, self\<lparr>minecraft := versions[i := file_version]\<rparr>)
         | (Inr version_dirty, file_version) \<Rightarrow>
             Meta_update_files ev (dirty \<or> version_dirty)
               (self\<lparr>minecraft := versions[i := file_version]\<rparr>) rest)"

text \<open>\<^verbatim>\<open>Meta.update\<close>: the directory is a list of files, visited in the order of their names;
  a dirty pass ends with \<^verbatim>\<open>self.minecraft.sort(key=..., reverse=True)\<close>.\<close>

definition Meta_update :: "env \<Rightarrow> Meta \<Rightarrow> version_json list \<Rightarrow> (error + bool) \<times> Meta" where
  "Meta_update ev self directory =
     (case Meta_update_files ev False self (sort_key vf_name directory) of
        (Inl e, self') \<Rightarrow> (Inl e, self')
      | (Inr dirty, self') \<Rightarrow>
          if dirty
          then (Inr True,
                self'\<lparr>minecraft :=
                  sorted_reverse (map (\<lambda>v. (mv_release_time v, v)) (minecraft self'))\<rparr>)
          else (Inr False, self'))"

text \<open>\<^verbatim>\<open>Meta.pull_and_update\<close>, after the pull: \<open>latest_commit\<close> is the head commit of the mirror
  and \<open>directory\<close> its descriptor files.\<close>

definition Meta_pull_and_update ::
  "env \<Rightarrow> Meta \<Rightarrow> string \<Rightarrow> version_json list \<Rightarrow> (error + bool) \<times> Meta" where
  "Meta_pull_and_update ev self latest_commit directory =
     (if commit self = latest_commit then (Inr False, self)
      else
        case Meta_update ev (self\<lparr>commit := latest_commit\<rparr>) directory of
          (Inl e, self') \<Rightarrow> (Inl e, self')
        | (Inr _, self') \<Rightarrow> (Inr True, self'))"

section \<open>\<^verbatim>\<open>jars.py\<close>\<close>

text \<open>What \<^verbatim>\<open>JarsJar.update\<close> acts on outside the record: the files of the working directory
  by path, and a log of the calls made to the collaborators (the URLs requested and the
  mapping-io invocations, input and output path).\<close>

record world =
  files :: "path \<rightharpoonup> bytes"
  requested :: "string list"
  converted :: "(path \<times> path) list"

record JarsJar =
  jj_version_id :: string
  jj_version_file_id :: string
  jj_version_release_time :: datetime
  jj_jar_key :: string
  jj_jar_sha1_meta :: string
  jj_jar_sha1_local :: string
  jj_jar_filename :: string
  jj_map_filename :: string

definition jar_path :: "JarsJar \<Rightarrow> path" where
  "jar_path self = ''mappings/'' @ jj_jar_filename self"

definition map_path :: "JarsJar \<Rightarrow> path" where
  "map_path self = ''mappings/'' @ jj_map_filename self"

text \<open>\<^verbatim>\<open>self.jar_path.with_suffix(".bundle.jar")\<close>, line 76.\<close>

definition jar_bundle_path :: "JarsJar \<Rightarrow> path" where
  "jar_bundle_path self = ''mappings/'' @ with_suffix (jj_jar_filename self) ''.bundle.jar''"

text \<open>\<^verbatim>\<open>JarsJar.mappingio\<close>: the subprocess reads the jar and writes the mapping file; a non-zero
  return code raises.\<close>

definition mappingio :: "env \<Rightarrow> JarsJar \<Rightarrow> world \<Rightarrow> (error + unit) \<times> world" where
  "mappingio ev self w =
     (let w1 = w\<lparr>converted := converted w @ [(jar_path self, map_path self)]\<rparr> in
      case files w (jar_path self) of
        None \<Rightarrow> (Inl MappingIoError, w1)
      | Some jar_bytes \<Rightarrow>
         (case mapping_io_cli ev jar_bytes of
            None \<Rightarrow> (Inl MappingIoError, w1)
          | Some tiny \<Rightarrow> (Inr (), w1\<lparr>files := (files w1)(map_path self \<mapsto> tiny)\<rparr>)))"

text \<open>The condition of lines 77 to 83: whether the jar has to be downloaded.\<close>

definition download_needed :: "env \<Rightarrow> JarsJar \<Rightarrow> MetaJar \<Rightarrow> world \<Rightarrow> bool" where
  "download_needed ev self meta_jar w =
     (case files w (jar_path self) of
        None \<Rightarrow> True
      | Some jar_bytes \<Rightarrow>
          (if mj_sha1 meta_jar \<noteq> sha1_hexdigest ev jar_bytes
           then (case files w (jar_bundle_path self) of
                   None \<Rightarrow> True
                 | Some bundle_bytes \<Rightarrow> mj_sha1 meta_jar \<noteq> sha1_hexdigest ev bundle_bytes)
           else False))"

text \<open>Lines 76 to 85: download the jar if necessary.\<close>

definition download_jar :: "env \<Rightarrow> JarsJar \<Rightarrow> MetaJar \<Rightarrow> world \<Rightarrow> (error + unit) \<times> world" where
  "download_jar ev self meta_jar w =
     (if download_needed ev self meta_jar w
      then
        (let w1 = w\<lparr>requested := requested w @ [mj_url meta_jar]\<rparr> in
         case requests_get ev (mj_url meta_jar) of
           None \<Rightarrow> (Inl ConnectionError, w1)
         | Some content \<Rightarrow> (Inr (), w1\<lparr>files := (files w1)(jar_path self \<mapsto> content)\<rparr>))
      else (Inr (), w))"

text \<open>\<^verbatim>\<open>str.splitlines\<close> on the characters a \<open>string\<close> holds: line feed, vertical tab, form
  feed, carriage return (with a following line feed as one boundary), the separators
  \<^verbatim>\<open>\x1c\<close>, \<^verbatim>\<open>\x1d\<close>, \<^verbatim>\<open>\x1e\<close> and \<^verbatim>\<open>\x85\<close>.\<close>

definition line_boundary :: "char \<Rightarrow> bool" where
  "line_boundary c =
     (c \<in> set [CHR 0x0A, CHR 0x0B, CHR 0x0C, CHR 0x0D, CHR 0x1C, CHR 0x1D, CHR 0x1E, CHR 0x85])"

fun splitlines_from :: "string \<Rightarrow> string \<Rightarrow> string list" where
  "splitlines_from line [] = (if line = [] then [] else [line])"
| "splitlines_from line [c] =
     (if line_boundary c then [line] else [line @ [c]])"
| "splitlines_from line (c # d # rest) =
     (if c = CHR 0x0D \<and> d = CHR 0x0A then line # splitlines_from [] rest
      else if line_boundary c then line # splitlines_from [] (d # rest)
      else splitlines_from (line @ [c]) (d # rest))"

definition splitlines :: "string \<Rightarrow> string list" where
  "splitlines s = splitlines_from [] s"

text \<open>\<^verbatim>\<open>s.split("\t")[-1]\<close>: what follows the last tab.\<close>

definition split_tab_last :: "string \<Rightarrow> string" where
  "split_tab_last s = rev (takeWhile (\<lambda>c. c \<noteq> CHR 0x09) (rev s))"

text \<open>Lines 88 to 106: if the local jar is a bundle, move it aside and put the inner jar in its
  place. \<^verbatim>\<open>if unbundled_jar_bytes:\<close> is false for \<^verbatim>\<open>None\<close> and for empty bytes.\<close>

definition extract_bundle :: "env \<Rightarrow> JarsJar \<Rightarrow> world \<Rightarrow> (error + unit) \<times> world" where
  "extract_bundle ev self w =
     (case files w (jar_path self) of
        None \<Rightarrow> (Inl FileNotFoundError, w)
      | Some jar_bytes \<Rightarrow>
         (case zip_file ev jar_bytes of
            None \<Rightarrow> (Inl BadZipFile, w)
          | Some jar_zip \<Rightarrow>
             (case jar_zip ''META-INF/versions.list'' of
                None \<Rightarrow> (Inr (), w)
              | Some raw \<Rightarrow>
                 (case decode_utf8 ev raw of
                    None \<Rightarrow> (Inl UnicodeDecodeError, w)
                  | Some versions_list \<Rightarrow>
                     (if length (splitlines versions_list) > 1 then (Inl MultiVersionBundle, w)
                      else
                        (case jar_zip (''META-INF/versions/'' @ split_tab_last versions_list) of
                           None \<Rightarrow> (Inl KeyError, w)
                         | Some unbundled_jar_bytes \<Rightarrow>
                            (if unbundled_jar_bytes \<noteq> []
                             then (Inr (),
                                   w\<lparr>files :=
                                       ((files w)(jar_path self := None))
                                         (jar_bundle_path self \<mapsto> jar_bytes,
                                          jar_path self \<mapsto> unbundled_jar_bytes)\<rparr>)
                             else (Inr (), w))))))))"

text \<open>\<^verbatim>\<open>JarsJar.update\<close>. The record changes only in lines 112 and 113, after every step that
  can raise but the last read.\<close>

definition JarsJar_update ::
  "env \<Rightarrow> JarsJar \<Rightarrow> MetaJar \<Rightarrow> world \<Rightarrow> (error + bool) \<times> JarsJar \<times> world" where
  "JarsJar_update ev self meta_jar w =
     (if mj_sha1 meta_jar \<noteq> jj_jar_sha1_meta self
      then
        (case download_jar ev self meta_jar w of
           (Inl e, w1) \<Rightarrow> (Inl e, self, w1)
         | (Inr _, w1) \<Rightarrow>
            (case extract_bundle ev self w1 of
               (Inl e, w2) \<Rightarrow> (Inl e, self, w2)
             | (Inr _, w2) \<Rightarrow>
                (case mappingio ev self w2 of
                   (Inl e, w3) \<Rightarrow> (Inl e, self, w3)
                 | (Inr _, w3) \<Rightarrow>
                    (case files w3 (jar_path self) of
                       None \<Rightarrow>
                         (Inl FileNotFoundError,
                          self\<lparr>jj_jar_sha1_meta := mj_sha1 meta_jar\<rparr>, w3)
                     | Some jar_bytes \<Rightarrow>
                         (Inr True,
                          self\<lparr>jj_jar_sha1_meta := mj_sha1 meta_jar,
                               jj_jar_sha1_local := sha1_hexdigest ev jar_bytes\<rparr>, w3)))))
      else (Inr False, self, w))"

definition from_meta_jar :: "env \<Rightarrow> MetaJar \<Rightarrow> world \<Rightarrow> (error + JarsJar) \<times> world" where
  "from_meta_jar ev meta_jar w =
     (case JarsJar_update ev
             \<lparr>jj_version_id = mj_version_id meta_jar,
              jj_version_file_id = mj_version_file_id meta_jar,
              jj_version_release_time = mj_version_release_time meta_jar,
              jj_jar_key = mj_key meta_jar,
              jj_jar_sha1_meta = [],
              jj_jar_sha1_local = [],
              jj_jar_filename = MetaJar_filename meta_jar ''jar'',
              jj_map_filename = MetaJar_filename meta_jar ''tiny''\<rparr>
             meta_jar w of
        (Inl e, _, w') \<Rightarrow> (Inl e, w')
      | (Inr _, self', w') \<Rightarrow> (Inr self', w'))"

record Jars =
  versions :: "JarsJar dict dict"

definition Jars_empty :: Jars where
  "Jars_empty = \<lparr>versions = []\<rparr>"

definition Jars_all :: "Jars \<Rightarrow> JarsJar list" where
  "Jars_all self = concat (map (\<lambda>version. map snd (snd version)) (versions self))"

definition Jars_get_version_release_time :: "Jars \<Rightarrow> string \<Rightarrow> error + datetime" where
  "Jars_get_version_release_time self version =
     (case find (\<lambda>jar. version \<in> set [jj_version_id jar, jj_version_file_id jar])
             (Jars_all self) of
        Some jar \<Rightarrow> Inr (jj_version_release_time jar)
      | None \<Rightarrow> Inl ReleaseTimeNotFound)"

text \<open>The inner loop of \<^verbatim>\<open>Jars.update\<close> over the jars of one version of the meta (lines 166 to
  186).\<close>

fun Jars_update_jars ::
  "env \<Rightarrow> string \<Rightarrow> bool \<Rightarrow> Jars \<Rightarrow> world \<Rightarrow> MetaJar dict
     \<Rightarrow> (error + bool) \<times> Jars \<times> world" where
  "Jars_update_jars ev version_id dirty self w [] = (Inr dirty, self, w)"
| "Jars_update_jars ev version_id dirty self w ((jar_name, meta_jar) # rest) =
     (case map_of (versions self) version_id of
        None \<Rightarrow> (Inl KeyError, self, w)
      | Some version \<Rightarrow>
         (case map_of version jar_name of
            None \<Rightarrow>
             (case from_meta_jar ev meta_jar w of
                (Inl e, w') \<Rightarrow> (Inl e, self, w')
              | (Inr jar, w') \<Rightarrow>
                  Jars_update_jars ev version_id True
                    (self\<lparr>versions :=
                       dict_set (versions self) version_id (dict_set version jar_name jar)\<rparr>)
                    w' rest)
          | Some jar \<Rightarrow>
             (case JarsJar_update ev jar meta_jar w of
                (Inl e, jar', w') \<Rightarrow>
                  (Inl e,
                   self\<lparr>versions :=
                     dict_set (versions self) version_id (dict_set version jar_name jar')\<rparr>,
                   w')
              | (Inr version_dirty, jar', w') \<Rightarrow>
                  (if version_dirty
                   then Jars_update_jars ev version_id True
                          (self\<lparr>versions :=
                             dict_set (versions self) version_id
                               (sort_dict (dict_set version jar_name jar'))\<rparr>)
                          w' rest
                   else Jars_update_jars ev version_id dirty
                          (self\<lparr>versions :=
                             dict_set (versions self) version_id
                               (dict_set version jar_name jar')\<rparr>)
                          w' rest))))"

text \<open>The outer loop over the versions of the meta (lines 155 to 188).\<close>

fun Jars_update_versions ::
  "env \<Rightarrow> bool \<Rightarrow> Jars \<Rightarrow> world \<Rightarrow> MetaVersion list \<Rightarrow> (error + bool) \<times> Jars \<times> world" where
  "Jars_update_versions ev dirty self w [] = (Inr dirty, self, w)"
| "Jars_update_versions ev dirty self w (mc_version # rest) =
     (case Jars_update_jars ev (mv_id mc_version)
             (dirty \<or> \<not> dict_contains (versions self) (mv_id mc_version))
             (if dict_contains (versions self) (mv_id mc_version) then self
              else self\<lparr>versions := dict_set (versions self) (mv_id mc_version) []\<rparr>)
             w (mv_jars mc_version) of
        (Inl e, self2, w2) \<Rightarrow> (Inl e, self2, w2)
      | (Inr dirty2, self2, w2) \<Rightarrow> Jars_update_versions ev dirty2 self2 w2 rest)"

text \<open>\<^verbatim>\<open>Jars.update\<close>; \<open>meta\<close> is what \<^verbatim>\<open>Meta.load()\<close> returns.\<close>

definition Jars_update :: "env \<Rightarrow> Meta \<Rightarrow> Jars \<Rightarrow> world \<Rightarrow> (error + bool) \<times> Jars \<times> world" where
  "Jars_update ev meta self w =
     (case Jars_update_versions ev False self w (rev (minecraft meta)) of
        (Inl e, self', w') \<Rightarrow> (Inl e, self', w')
      | (Inr dirty, self', w') \<Rightarrow>
          (if dirty
           then (case sort_dict_reverse (\<lambda>i. Jars_get_version_release_time self' (fst i))
                        (versions self') of
                   Inl e \<Rightarrow> (Inl e, self', w')
                 | Inr sorted_versions \<Rightarrow> (Inr True, self'\<lparr>versions := sorted_versions\<rparr>, w'))
           else (Inr False, self', w')))"

section \<open>\<^verbatim>\<open>index.py\<close>\<close>

definition BASE_URL :: string where
  "BASE_URL = ''https://jackassmc.github.io/minecraft-jars-java-descriptions''"

record IndexMapping =
  im_version_id :: string
  im_version_file_id :: string
  im_version_release_time :: datetime
  im_jar_key :: string
  im_jar_sha1_meta :: string
  im_path :: path
  im_url :: string

definition from_jar :: "JarsJar \<Rightarrow> IndexMapping" where
  "from_jar jar =
     \<lparr>im_version_id = jj_version_id jar,
      im_version_file_id = jj_version_file_id jar,
      im_version_release_time = jj_version_release_time jar,
      im_jar_key = jj_jar_key jar,
      im_jar_sha1_meta = jj_jar_sha1_meta jar,
      im_path = map_path jar,
      im_url = BASE_URL @ ''/'' @ map_path jar\<rparr>"

definition IndexMapping_update ::
  "IndexMapping \<Rightarrow> JarsJar \<Rightarrow> (error + bool) \<times> IndexMapping" where
  "IndexMapping_update self jar =
     (if im_version_id self \<noteq> jj_version_id jar then (Inl IndexMappingMismatch, self)
      else if im_version_file_id self \<noteq> jj_version_file_id jar
        then (Inl IndexMappingMismatch, self)
      else if im_version_release_time self \<noteq> jj_version_release_time jar
        then (Inl IndexMappingMismatch, self)
      else if im_jar_key self \<noteq> jj_jar_key jar then (Inl IndexMappingMismatch, self)
      else
        (let dirty1 = (im_jar_sha1_meta self \<noteq> jj_jar_sha1_meta jar);
             self1 = (if dirty1 then self\<lparr>im_jar_sha1_meta := jj_jar_sha1_meta jar\<rparr> else self);
             dirty2 = (im_path self1 \<noteq> map_path jar);
             self2 = (if dirty2 then self1\<lparr>im_path := map_path jar\<rparr> else self1);
             url = BASE_URL @ ''/'' @ map_path jar;
             dirty3 = (im_url self2 \<noteq> url);
             self3 = (if dirty3 then self2\<lparr>im_url := url\<rparr> else self2)
         in (Inr (dirty1 \<or> dirty2 \<or> dirty3), self3)))"

record Index =
  timestamp :: datetime
  mappings :: "IndexMapping dict dict"

definition Index_empty :: Index where
  "Index_empty = \<lparr>timestamp = datetime_min, mappings = []\<rparr>"

definition Index_all :: "Index \<Rightarrow> IndexMapping list" where
  "Index_all self = concat (map (\<lambda>version. map snd (snd version)) (mappings self))"

text \<open>\<^verbatim>\<open>Index.save\<close> stamps the time of the save; \<open>now\<close> is \<^verbatim>\<open>datetime.now(timezone.utc)\<close>.\<close>

definition Index_save :: "datetime \<Rightarrow> Index \<Rightarrow> Index" where
  "Index_save now self = self\<lparr>timestamp := now\<rparr>"

definition Index_get_version_release_time :: "Index \<Rightarrow> string \<Rightarrow> error + datetime" where
  "Index_get_version_release_time self version =
     (case find (\<lambda>mapping. version \<in> set [im_version_id mapping, im_version_file_id mapping])
             (Index_all self) of
        Some mapping \<Rightarrow> Inr (im_version_release_time mapping)
      | None \<Rightarrow> Inl ReleaseTimeNotFound)"

text \<open>The loop of \<^verbatim>\<open>Index.update\<close> over \<^verbatim>\<open>Jars.load(jars_json).all\<close> (lines 104 to 121).\<close>

definition Index_init_version :: "IndexMapping dict dict \<Rightarrow> string \<Rightarrow> IndexMapping dict dict"
  where
  "Index_init_version ms version_id =
     (if dict_contains ms version_id then ms else dict_set ms version_id [])"

fun Index_update_jars :: "bool \<Rightarrow> Index \<Rightarrow> JarsJar list \<Rightarrow> (error + bool) \<times> Index" where
  "Index_update_jars dirty self [] = (Inr dirty, self)"
| "Index_update_jars dirty self (jar # rest) =
     (case map_of (Index_init_version (mappings self) (jj_version_id jar)) (jj_version_id jar) of
        None \<Rightarrow>
          (Inl KeyError,
           self\<lparr>mappings := Index_init_version (mappings self) (jj_version_id jar)\<rparr>)
      | Some version \<Rightarrow>
         (case map_of version (jj_jar_key jar) of
            None \<Rightarrow>
              Index_update_jars True
                (self\<lparr>mappings :=
                   dict_set (Index_init_version (mappings self) (jj_version_id jar))
                     (jj_version_id jar) (dict_set version (jj_jar_key jar) (from_jar jar))\<rparr>)
                rest
          | Some mapping \<Rightarrow>
             (case IndexMapping_update mapping jar of
                (Inl e, mapping') \<Rightarrow>
                  (Inl e,
                   self\<lparr>mappings :=
                     dict_set (Index_init_version (mappings self) (jj_version_id jar))
                       (jj_version_id jar) (dict_set version (jj_jar_key jar) mapping')\<rparr>)
              | (Inr jar_dirty, mapping') \<Rightarrow>
                  (if jar_dirty
                   then Index_update_jars True
                          (self\<lparr>mappings :=
                             dict_set (Index_init_version (mappings self) (jj_version_id jar))
                               (jj_version_id jar)
                               (sort_dict (dict_set version (jj_jar_key jar) mapping'))\<rparr>)
                          rest
                   else Index_update_jars dirty
                          (self\<lparr>mappings :=
                             dict_set (Index_init_version (mappings self) (jj_version_id jar))
                               (jj_version_id jar)
                               (dict_set version (jj_jar_key jar) mapping')\<rparr>)
                          rest))))"

text \<open>\<^verbatim>\<open>Index.update\<close>; \<open>jars\<close> is what \<^verbatim>\<open>Jars.load(jars_json)\<close> returns.\<close>

definition Index_update :: "Index \<Rightarrow> Jars \<Rightarrow> (error + bool) \<times> Index" where
  "Index_update self jars =
     (case Index_update_jars False self (Jars_all jars) of
        (Inl e, self') \<Rightarrow> (Inl e, self')
      | (Inr dirty, self') \<Rightarrow>
          (if dirty
           then (case sort_dict_reverse (\<lambda>i. Index_get_version_release_time self' (fst i))
                        (mappings self') of
                   Inl e \<Rightarrow> (Inl e, self')
                 | Inr sorted_mappings \<Rightarrow> (Inr True, self'\<lparr>mappings := sorted_mappings\<rparr>))
           else (Inr False, self')))"

section \<open>Concrete inputs for the examples\<close>

text \<open>A small environment on which the operations can be run: the hash of some bytes is the
  bytes behind a prefix, the descriptors, the URLs and the archives are tables, every other
  archive is a plain jar without entries of interest, and the converter always succeeds.\<close>

definition example_descriptors :: "(bytes \<times> version_json_data) list" where
  "example_descriptors =
     [(''descriptor 1.0'',
       \<lparr>vj_id = Some ''1.0'', vj_releaseTime = Some 10,
        vj_downloads =
          Some [(''client'', \<lparr>dl_sha1 = Some ''sha1:jar a'', dl_url = Some ''url a''\<rparr>)]\<rparr>),
      (''descriptor 1.0 reformatted'',
       \<lparr>vj_id = Some ''1.0'', vj_releaseTime = Some 10,
        vj_downloads =
          Some [(''client'', \<lparr>dl_sha1 = Some ''sha1:jar a'', dl_url = Some ''url a''\<rparr>)]\<rparr>),
      (''descriptor 1.0 republished'',
       \<lparr>vj_id = Some ''1.0'', vj_releaseTime = Some 10,
        vj_downloads =
          Some [(''client'', \<lparr>dl_sha1 = Some ''sha1:jar b'', dl_url = Some ''url b''\<rparr>)]\<rparr>),
      (''descriptor 1.18'',
       \<lparr>vj_id = Some ''1.18'', vj_releaseTime = Some 18,
        vj_downloads =
          Some [(''server'',
                 \<lparr>dl_sha1 = Some ''sha1:old server'', dl_url = Some ''url old server''\<rparr>)]\<rparr>),
      (''descriptor 1.18 with client'',
       \<lparr>vj_id = Some ''1.18'', vj_releaseTime = Some 18,
        vj_downloads =
          Some [(''server'',
                 \<lparr>dl_sha1 = Some ''sha1:old server'', dl_url = Some ''url old server''\<rparr>),
                (''client'', \<lparr>dl_sha1 = Some ''sha1:jar a'', dl_url = Some ''url a''\<rparr>)]\<rparr>),
      (''descriptor b1.8'',
       \<lparr>vj_id = Some ''b1.8'', vj_releaseTime = Some 3,
        vj_downloads =
          Some [(''client_mappings'',
                 \<lparr>dl_sha1 = Some ''sha1:mappings'', dl_url = Some ''url mappings''\<rparr>)]\<rparr>)]"

definition example_urls :: "(string \<times> bytes) list" where
  "example_urls =
     [(''url a'', ''jar a''), (''url b'', ''jar b''), (''url c'', ''jar c''),
      (''url old server'', ''old server''),
      (''url one'', ''bundle one''), (''url two'', ''bundle two''),
      (''url hollow'', ''bundle hollow'')]"

definition example_archives :: "(bytes \<times> (string \<times> bytes) list) list" where
  "example_archives =
     [(''bundle one'',
       [(''META-INF/versions.list'', ''hash'' @ [CHR 0x09] @ ''1.18'' @ [CHR 0x09] @ ''1.18/server.jar''),
        (''META-INF/versions/1.18/server.jar'', ''inner jar'')]),
      (''bundle two'',
       [(''META-INF/versions.list'',
         ''hash'' @ [CHR 0x09] @ ''1.18'' @ [CHR 0x09] @ ''1.18/server.jar'' @ [CHR 0x0A]
           @ ''hash'' @ [CHR 0x09] @ ''1.19'' @ [CHR 0x09] @ ''1.19/server.jar''),
        (''META-INF/versions/1.18/server.jar'', ''inner jar''),
        (''META-INF/versions/1.19/server.jar'', ''other inner jar'')]),
      (''bundle hollow'',
       [(''META-INF/versions.list'', ''hash'' @ [CHR 0x09] @ ''1.18'' @ [CHR 0x09] @ ''1.18/server.jar''),
        (''META-INF/versions/1.18/server.jar'', [])])]"

definition example_env :: env where
  "example_env =
     \<lparr>sha1_hexdigest = (\<lambda>b. ''sha1:'' @ b),
      json_load = map_of example_descriptors,
      requests_get = map_of example_urls,
      zip_file = (\<lambda>b. case map_of example_archives b of
                          None \<Rightarrow> Some Map.empty
                        | Some entries \<Rightarrow> Some (map_of entries)),
      decode_utf8 = Some,
      mapping_io_cli = (\<lambda>b. Some (''tiny:'' @ b))\<rparr>"

definition empty_world :: world where
  "empty_world = \<lparr>files = Map.empty, requested = [], converted = []\<rparr>"

text \<open>A meta record of version 1.0, the artifact record and the index record made from it, and
  a meta record of another version that carries the same hash.\<close>

definition meta_jar_1_0 :: MetaJar where
  "meta_jar_1_0 =
     \<lparr>mj_version_id = ''1.0'', mj_version_file_id = ''1.0'', mj_version_release_time = 10,
      mj_key = ''client'', mj_sha1 = ''sha1:jar a'', mj_url = ''url a''\<rparr>"

definition meta_jar_2_0 :: MetaJar where
  "meta_jar_2_0 =
     \<lparr>mj_version_id = ''2.0'', mj_version_file_id = ''2.0-pre'', mj_version_release_time = 20,
      mj_key = ''server'', mj_sha1 = ''sha1:jar a'', mj_url = ''url a''\<rparr>"

text \<open>The client of version 1.0 as the descriptor \<^verbatim>\<open>1.0-b.json\<close> publishes it a second time.\<close>

definition meta_jar_1_0_republished :: MetaJar where
  "meta_jar_1_0_republished =
     \<lparr>mj_version_id = ''1.0'', mj_version_file_id = ''1.0-b'', mj_version_release_time = 10,
      mj_key = ''client'', mj_sha1 = ''sha1:jar b'', mj_url = ''url b''\<rparr>"

definition jars_jar_1_0 :: JarsJar where
  "jars_jar_1_0 =
     \<lparr>jj_version_id = ''1.0'', jj_version_file_id = ''1.0'', jj_version_release_time = 10,
      jj_jar_key = ''client'', jj_jar_sha1_meta = ''sha1:jar a'',
      jj_jar_sha1_local = ''sha1:jar a'', jj_jar_filename = ''1.0-client.jar'',
      jj_map_filename = ''1.0-client.tiny''\<rparr>"

definition meta_version_1_0 :: MetaVersion where
  "meta_version_1_0 =
     \<lparr>mv_id = ''1.0'', mv_file_id = ''1.0'', mv_release_time = 10,
      mv_sha1 = ''sha1:descriptor 1.0'', mv_jars = [(''client'', meta_jar_1_0)]\<rparr>"

definition file_1_0 :: version_json where
  "file_1_0 = \<lparr>vf_name = ''1.0.json'', vf_bytes = ''descriptor 1.0''\<rparr>"

definition file_1_0_reformatted :: version_json where
  "file_1_0_reformatted = \<lparr>vf_name = ''1.0.json'', vf_bytes = ''descriptor 1.0 reformatted''\<rparr>"

definition file_b1_8 :: version_json where
  "file_b1_8 = \<lparr>vf_name = ''b1.8.json'', vf_bytes = ''descriptor b1.8''\<rparr>"

definition meta_b1_8 :: Meta where
  "meta_b1_8 =
     \<lparr>commit = [],
      minecraft =
        [\<lparr>mv_id = ''b1.8'', mv_file_id = ''b1.8'', mv_release_time = 3,
          mv_sha1 = ''sha1:descriptor b1.8'', mv_jars = []\<rparr>]\<rparr>"

text \<open>The server of version 1.18: the artifact record before the update, and the meta record
  with a given hash and URL.\<close>

definition jars_jar_1_18 :: JarsJar where
  "jars_jar_1_18 =
     \<lparr>jj_version_id = ''1.18'', jj_version_file_id = ''1.18'', jj_version_release_time = 18,
      jj_jar_key = ''server'', jj_jar_sha1_meta = ''sha1:old server'',
      jj_jar_sha1_local = ''sha1:old server'', jj_jar_filename = ''1.18-server.jar'',
      jj_map_filename = ''1.18-server.tiny''\<rparr>"

definition meta_jar_1_18 :: "string \<Rightarrow> string \<Rightarrow> MetaJar" where
  "meta_jar_1_18 sha1 url =
     \<lparr>mj_version_id = ''1.18'', mj_version_file_id = ''1.18'', mj_version_release_time = 18,
      mj_key = ''server'', mj_sha1 = sha1, mj_url = url\<rparr>"

text \<open>In the words of the claims: the file at a path holds content whose SHA-1 is the given
  hash.\<close>

definition file_has_sha1 :: "env \<Rightarrow> world \<Rightarrow> path \<Rightarrow> string \<Rightarrow> bool" where
  "file_has_sha1 ev w p h =
     (case files w p of None \<Rightarrow> False | Some b \<Rightarrow> sha1_hexdigest ev b = h)"





text \<open>Version 1.18 is published with a server only; later its descriptor is amended and
  lists a client as well. The stores after the first run, the meta snapshot after the amended
  descriptor was read, and the artifact store after it was brought up to that snapshot.\<close>

definition file_1_18 :: version_json where
  "file_1_18 = \<lparr>vf_name = ''1.18.json'', vf_bytes = ''descriptor 1.18''\<rparr>"

definition file_1_18_with_client :: version_json where
  "file_1_18_with_client =
     \<lparr>vf_name = ''1.18.json'', vf_bytes = ''descriptor 1.18 with client''\<rparr>"

definition jars_jar_1_18_client :: JarsJar where
  "jars_jar_1_18_client =
     \<lparr>jj_version_id = ''1.18'', jj_version_file_id = ''1.18'', jj_version_release_time = 18,
      jj_jar_key = ''client'', jj_jar_sha1_meta = ''sha1:jar a'',
      jj_jar_sha1_local = ''sha1:jar a'', jj_jar_filename = ''1.18-client.jar'',
      jj_map_filename = ''1.18-client.tiny''\<rparr>"

definition meta_server_only :: Meta where
  "meta_server_only =
     \<lparr>commit = [],
      minecraft =
        [\<lparr>mv_id = ''1.18'', mv_file_id = ''1.18'', mv_release_time = 18,
          mv_sha1 = ''sha1:descriptor 1.18'',
          mv_jars = [(''server'', meta_jar_1_18 ''sha1:old server'' ''url old server'')]\<rparr>]\<rparr>"

definition jars_server_only :: Jars where
  "jars_server_only = \<lparr>versions = [(''1.18'', [(''server'', jars_jar_1_18)])]\<rparr>"

definition index_server_only :: Index where
  "index_server_only =
     \<lparr>timestamp = datetime_min,
      mappings = [(''1.18'', [(''server'', from_jar jars_jar_1_18)])]\<rparr>"

definition meta_client_server :: Meta where
  "meta_client_server =
     \<lparr>commit = [],
      minecraft =
        [\<lparr>mv_id = ''1.18'', mv_file_id = ''1.18'', mv_release_time = 18,
          mv_sha1 = ''sha1:descriptor 1.18 with client'',
          mv_jars =
            [(''client'',
              \<lparr>mj_version_id = ''1.18'', mj_version_file_id = ''1.18'',
               mj_version_release_time = 18, mj_key = ''client'', mj_sha1 = ''sha1:jar a'',
               mj_url = ''url a''\<rparr>),
             (''server'', meta_jar_1_18 ''sha1:old server'' ''url old server'')]\<rparr>]\<rparr>"

definition jars_server_client :: Jars where
  "jars_server_client =
     \<lparr>versions = [(''1.18'', [(''server'', jars_jar_1_18), (''client'', jars_jar_1_18_client)])]\<rparr>"











section \<open>Dictionaries and sorting\<close>



lemma sort_keys_total:
  "(\<And>x. x \<in> set xs \<Longrightarrow> f x = Inr (g x)) \<Longrightarrow> sort_keys f xs = Inr (map (\<lambda>x. (g x, x)) xs)"
  by (induction xs) auto












section \<open>The record-level updates\<close>

text \<open>\<^verbatim>\<open>MetaJar.update\<close> and \<^verbatim>\<open>IndexMapping.update\<close> compare the four identity fields before they
  change anything: on a mismatch they raise and the record is as it was.\<close>

lemma MetaJar_update_mismatch:
  assumes "mj_version_id self \<noteq> mj_version_id meta_jar
         \<or> mj_version_file_id self \<noteq> mj_version_file_id meta_jar
         \<or> mj_version_release_time self \<noteq> mj_version_release_time meta_jar
         \<or> mj_key self \<noteq> mj_key meta_jar"
  shows "MetaJar_update self meta_jar = (Inl MetaJarMismatch, self)"
  using assms by (auto simp: MetaJar_update_def MetaJar_update_kwargs_def)

lemma MetaJar_update_match:
  assumes "mj_version_id self = mj_version_id meta_jar"
    and "mj_version_file_id self = mj_version_file_id meta_jar"
    and "mj_version_release_time self = mj_version_release_time meta_jar"
    and "mj_key self = mj_key meta_jar"
  shows "MetaJar_update self meta_jar =
           (Inr (mj_sha1 self \<noteq> mj_sha1 meta_jar \<or> mj_url self \<noteq> mj_url meta_jar), meta_jar)"
  using assms by (simp add: MetaJar_update_def MetaJar_update_kwargs_def Let_def)

lemma IndexMapping_update_mismatch:
  assumes "im_version_id self \<noteq> jj_version_id jar
         \<or> im_version_file_id self \<noteq> jj_version_file_id jar
         \<or> im_version_release_time self \<noteq> jj_version_release_time jar
         \<or> im_jar_key self \<noteq> jj_jar_key jar"
  shows "IndexMapping_update self jar = (Inl IndexMappingMismatch, self)"
  using assms by (auto simp: IndexMapping_update_def)

lemma IndexMapping_update_match:
  assumes "im_version_id self = jj_version_id jar"
    and "im_version_file_id self = jj_version_file_id jar"
    and "im_version_release_time self = jj_version_release_time jar"
    and "im_jar_key self = jj_jar_key jar"
  shows "IndexMapping_update self jar =
           (Inr (im_jar_sha1_meta self \<noteq> jj_jar_sha1_meta jar \<or> im_path self \<noteq> map_path jar
                 \<or> im_url self \<noteq> BASE_URL @ ''/'' @ map_path jar),
            from_jar jar)"
  using assms by (simp add: IndexMapping_update_def from_jar_def Let_def)

text \<open>\<^verbatim>\<open>JarsJar.update\<close> reads the meta record's hash and URL only; when the hash is the
  recorded one it returns at once.\<close>

lemma JarsJar_update_same_hash:
  "mj_sha1 meta_jar = jj_jar_sha1_meta self \<Longrightarrow>
     JarsJar_update ev self meta_jar w = (Inr False, self, w)"
  by (simp add: JarsJar_update_def)

section \<open>\<^verbatim>\<open>MetaVersion.update\<close> and \<^verbatim>\<open>Meta.pull_and_update\<close>\<close>

lemma Meta_update_files_commit:
  "commit (snd (Meta_update_files ev dirty self fs)) = commit self"
  by (induction fs arbitrary: dirty self)
     (auto split: option.splits prod.splits sum.splits)

lemma Meta_update_commit: "commit (snd (Meta_update ev self directory)) = commit self"
proof -
  have "commit (snd (Meta_update_files ev False self (sort_key vf_name directory))) = commit self"
    by (rule Meta_update_files_commit)
  then show ?thesis
    by (auto simp: Meta_update_def split: prod.splits sum.splits)
qed

text \<open>
  Claim C2. \<^verbatim>\<open>MetaVersion.update\<close> returns not-dirty and leaves the whole version, its jars
  included, as it was when the SHA-1 of the descriptor file is the one the version has stored.
  When the SHA-1 differs, a call that returns returns dirty, whatever happens to the jars: the
  only other outcome is a raise while the descriptor is read.
\<close>

theorem MetaVersion_update_hash_gate:
  "(mv_sha1 self = sha1_hexdigest ev (vf_bytes version_json) \<longrightarrow>
      MetaVersion_update ev self version_json = (Inr False, self)) \<and>
   (mv_sha1 self \<noteq> sha1_hexdigest ev (vf_bytes version_json) \<longrightarrow>
      fst (MetaVersion_update ev self version_json) = Inr True \<or>
      (\<exists>e. fst (MetaVersion_update ev self version_json) = Inl e))"
  by (auto simp: MetaVersion_update_def split: option.splits prod.splits sum.splits)

text \<open>Both cases on version 1.0: its own descriptor is skipped; the descriptor with other
  bytes and the same content is dirty, although the jars stay what they were.\<close>

theorem MetaVersion_update_hash_gate_witness:
  "mv_sha1 meta_version_1_0 = sha1_hexdigest example_env (vf_bytes file_1_0) \<and>
   MetaVersion_update example_env meta_version_1_0 file_1_0 = (Inr False, meta_version_1_0) \<and>
   mv_sha1 meta_version_1_0 \<noteq> sha1_hexdigest example_env (vf_bytes file_1_0_reformatted) \<and>
   fst (MetaVersion_update example_env meta_version_1_0 file_1_0_reformatted) = Inr True \<and>
   mv_jars (snd (MetaVersion_update example_env meta_version_1_0 file_1_0_reformatted))
     = mv_jars meta_version_1_0"
proof -
  have same: "mv_sha1 meta_version_1_0 = sha1_hexdigest example_env (vf_bytes file_1_0)"
    by (simp add: meta_version_1_0_def example_env_def file_1_0_def)
  have other: "mv_sha1 meta_version_1_0
      \<noteq> sha1_hexdigest example_env (vf_bytes file_1_0_reformatted)"
    by (simp add: meta_version_1_0_def example_env_def file_1_0_reformatted_def)
  have run: "MetaVersion_update example_env meta_version_1_0 file_1_0_reformatted
      = (Inr True, meta_version_1_0\<lparr>mv_sha1 := ''sha1:descriptor 1.0 reformatted''\<rparr>)"
    by code_simp
  from MetaVersion_update_hash_gate [of meta_version_1_0 example_env file_1_0] same
  have "MetaVersion_update example_env meta_version_1_0 file_1_0 = (Inr False, meta_version_1_0)"
    by blast
  with same other run show ?thesis by simp
qed

text \<open>
  Claim C9. After the pull, \<^verbatim>\<open>Meta.pull_and_update\<close> returns not-dirty and leaves the commit
  hash and the versions as they were when the head commit is the stored one. When it differs,
  the new hash is stored and \<^verbatim>\<open>Meta.update\<close> runs over the descriptor files on that state: the
  store is what that run leaves, a raise of the run is passed on, and a run that returns makes
  the call return dirty, whether the run itself was dirty or not.
\<close>

theorem Meta_pull_and_update_commit_gate:
  "(commit self = latest_commit \<longrightarrow>
      Meta_pull_and_update ev self latest_commit directory = (Inr False, self)) \<and>
   (commit self \<noteq> latest_commit \<longrightarrow>
      snd (Meta_pull_and_update ev self latest_commit directory)
        = snd (Meta_update ev (self\<lparr>commit := latest_commit\<rparr>) directory) \<and>
      commit (snd (Meta_pull_and_update ev self latest_commit directory)) = latest_commit \<and>
      (case fst (Meta_update ev (self\<lparr>commit := latest_commit\<rparr>) directory) of
         Inl e \<Rightarrow> fst (Meta_pull_and_update ev self latest_commit directory) = Inl e
       | Inr dirty \<Rightarrow> fst (Meta_pull_and_update ev self latest_commit directory) = Inr True))"
proof -
  have "commit (snd (Meta_update ev (self\<lparr>commit := latest_commit\<rparr>) directory)) = latest_commit"
    by (simp add: Meta_update_commit)
  then show ?thesis
    by (auto simp: Meta_pull_and_update_def split: prod.splits sum.splits)
qed

text \<open>On the store that holds version 1.0 at commit \<open>c0\<close>, with the descriptor directory
  unchanged: the same head commit changes nothing; the head commit \<open>c1\<close> is stored and
  reported dirty, although \<^verbatim>\<open>Meta.update\<close> itself returns not-dirty.\<close>

theorem Meta_pull_and_update_commit_gate_witness:
  "Meta_pull_and_update example_env \<lparr>commit = ''c0'', minecraft = [meta_version_1_0]\<rparr>
      ''c0'' [file_1_0]
     = (Inr False, \<lparr>commit = ''c0'', minecraft = [meta_version_1_0]\<rparr>) \<and>
   Meta_update example_env \<lparr>commit = ''c1'', minecraft = [meta_version_1_0]\<rparr> [file_1_0]
     = (Inr False, \<lparr>commit = ''c1'', minecraft = [meta_version_1_0]\<rparr>) \<and>
   Meta_pull_and_update example_env \<lparr>commit = ''c0'', minecraft = [meta_version_1_0]\<rparr>
      ''c1'' [file_1_0]
     = (Inr True, \<lparr>commit = ''c1'', minecraft = [meta_version_1_0]\<rparr>)"
proof -
  let ?m = "\<lparr>commit = ''c0'', minecraft = [meta_version_1_0]\<rparr>"
  have run: "Meta_update example_env (?m\<lparr>commit := ''c1''\<rparr>) [file_1_0]
      = (Inr False, \<lparr>commit = ''c1'', minecraft = [meta_version_1_0]\<rparr>)"
    by code_simp
  have "commit ?m = ''c0''" and "commit ?m \<noteq> ''c1''"
    by simp_all
  with Meta_pull_and_update_commit_gate [of ?m "''c0''" example_env "[file_1_0]"]
       Meta_pull_and_update_commit_gate [of ?m "''c1''" example_env "[file_1_0]"] run
  show ?thesis
    by (auto simp: prod_eq_iff)
qed

section \<open>The identity fields in \<^verbatim>\<open>JarsJar.update\<close>\<close>

text \<open>
  Claim C3. A record-level update whose incoming data differ in version id, version-file id,
  release time or key should raise and leave the record as it was. \<^verbatim>\<open>MetaJar.update\<close> and
  \<^verbatim>\<open>IndexMapping.update\<close> do (\<open>MetaJar_update_mismatch\<close>, \<open>IndexMapping_update_mismatch\<close>);
  \<^verbatim>\<open>JarsJar.update\<close> has no such check. Given the meta record of version 2.0, which differs from
  the artifact record of version 1.0 in all four fields and has its hash, it returns
  not-dirty. Given the meta record of the second publication of version 1.0, which has
  another version-file id and another hash, it downloads and converts and stores the foreign
  hash in the record.
\<close>

theorem JarsJar_update_ignores_identity:
  "mj_version_id meta_jar_2_0 \<noteq> jj_version_id jars_jar_1_0 \<and>
   mj_version_file_id meta_jar_2_0 \<noteq> jj_version_file_id jars_jar_1_0 \<and>
   mj_version_release_time meta_jar_2_0 \<noteq> jj_version_release_time jars_jar_1_0 \<and>
   mj_key meta_jar_2_0 \<noteq> jj_jar_key jars_jar_1_0 \<and>
   JarsJar_update ev jars_jar_1_0 meta_jar_2_0 w = (Inr False, jars_jar_1_0, w) \<and>
   mj_version_file_id meta_jar_1_0_republished \<noteq> jj_version_file_id jars_jar_1_0 \<and>
   fst (JarsJar_update example_env jars_jar_1_0 meta_jar_1_0_republished empty_world)
     = Inr True \<and>
   fst (snd (JarsJar_update example_env jars_jar_1_0 meta_jar_1_0_republished empty_world))
     = jars_jar_1_0\<lparr>jj_jar_sha1_meta := ''sha1:jar b'', jj_jar_sha1_local := ''sha1:jar b''\<rparr> \<and>
   requested (snd (snd
       (JarsJar_update example_env jars_jar_1_0 meta_jar_1_0_republished empty_world)))
     = [''url b''] \<and>
   converted (snd (snd
       (JarsJar_update example_env jars_jar_1_0 meta_jar_1_0_republished empty_world)))
     = [(''mappings/1.0-client.jar'', ''mappings/1.0-client.tiny'')]"
proof -
  have ids: "mj_version_id meta_jar_2_0 \<noteq> jj_version_id jars_jar_1_0"
    "mj_version_file_id meta_jar_2_0 \<noteq> jj_version_file_id jars_jar_1_0"
    "mj_version_release_time meta_jar_2_0 \<noteq> jj_version_release_time jars_jar_1_0"
    "mj_key meta_jar_2_0 \<noteq> jj_jar_key jars_jar_1_0"
    "mj_version_file_id meta_jar_1_0_republished \<noteq> jj_version_file_id jars_jar_1_0"
    by (simp_all add: meta_jar_2_0_def jars_jar_1_0_def meta_jar_1_0_republished_def)
  have "mj_sha1 meta_jar_2_0 = jj_jar_sha1_meta jars_jar_1_0"
    by (simp add: meta_jar_2_0_def jars_jar_1_0_def)
  then have quiet: "JarsJar_update ev jars_jar_1_0 meta_jar_2_0 w = (Inr False, jars_jar_1_0, w)"
    by (rule JarsJar_update_same_hash)
  have merged: "JarsJar_update example_env jars_jar_1_0 meta_jar_1_0_republished empty_world
     = (Inr True,
        jars_jar_1_0\<lparr>jj_jar_sha1_meta := ''sha1:jar b'', jj_jar_sha1_local := ''sha1:jar b''\<rparr>,
        \<lparr>files = [''mappings/1.0-client.jar'' \<mapsto> ''jar b'',
                  ''mappings/1.0-client.tiny'' \<mapsto> ''tiny:jar b''],
         requested = [''url b''],
         converted = [(''mappings/1.0-client.jar'', ''mappings/1.0-client.tiny'')]\<rparr>)"
    by (simp add: JarsJar_update_def download_jar_def download_needed_def extract_bundle_def
          mappingio_def jar_path_def map_path_def example_env_def example_urls_def
          example_archives_def empty_world_def meta_jar_1_0_republished_def jars_jar_1_0_def)
  from ids quiet show ?thesis by (simp add: merged)
qed

section \<open>The release-time lookup of \<^verbatim>\<open>Jars.update\<close>\<close>

text \<open>
  Claim C10. The descriptor of version b1.8 lists no download of the allow-list, so
  \<^verbatim>\<open>Meta.update\<close> on the empty store gives a snapshot whose only version has no jars. On that
  snapshot and the empty artifact store, the pass of \<^verbatim>\<open>Jars.update\<close> creates the empty inner
  map of b1.8 and ends dirty; no record of the store has b1.8 as version id or version-file id,
  so the lookup for the sort raises and \<^verbatim>\<open>Jars.update\<close> raises with it.
\<close>

theorem Jars_update_version_without_jars:
  "Meta_update example_env Meta_empty [file_b1_8] = (Inr True, meta_b1_8) \<and>
   map (\<lambda>v. (mv_id v, mv_jars v)) (minecraft meta_b1_8) = [(''b1.8'', [])] \<and>
   map_of (versions Jars_empty) ''b1.8'' = None \<and>
   Jars_update_versions ev False Jars_empty w (rev (minecraft meta_b1_8))
     = (Inr True, \<lparr>versions = [(''b1.8'', [])]\<rparr>, w) \<and>
   Jars_get_version_release_time \<lparr>versions = [(''b1.8'', [])]\<rparr> ''b1.8''
     = Inl ReleaseTimeNotFound \<and>
   Jars_update ev meta_b1_8 Jars_empty w
     = (Inl ReleaseTimeNotFound, \<lparr>versions = [(''b1.8'', [])]\<rparr>, w)"
proof -
  have meta: "Meta_update example_env Meta_empty [file_b1_8] = (Inr True, meta_b1_8)"
    by code_simp
  have pass: "Jars_update_versions ev False Jars_empty w (rev (minecraft meta_b1_8))
     = (Inr True, \<lparr>versions = [(''b1.8'', [])]\<rparr>, w)"
    by (simp add: meta_b1_8_def Jars_empty_def dict_contains_def)
  have lookup: "Jars_get_version_release_time \<lparr>versions = [(''b1.8'', [])]\<rparr> ''b1.8''
     = Inl ReleaseTimeNotFound"
    by (simp add: Jars_get_version_release_time_def Jars_all_def)
  have "Jars_update ev meta_b1_8 Jars_empty w
     = (Inl ReleaseTimeNotFound, \<lparr>versions = [(''b1.8'', [])]\<rparr>, w)"
    by (simp add: Jars_update_def pass lookup sort_dict_reverse_def)
  with meta pass lookup show ?thesis
    by (simp add: meta_b1_8_def Jars_empty_def)
qed

section \<open>\<^verbatim>\<open>JarsJar.update\<close>: download, bundle, conversion\<close>




text \<open>Only the download step requests a URL.\<close>

lemma requested_extract_bundle: "requested (snd (extract_bundle ev self w)) = requested w"
  by (simp add: extract_bundle_def split: option.splits)

lemma requested_mappingio: "requested (snd (mappingio ev self w)) = requested w"
  by (simp add: mappingio_def Let_def split: option.splits)

lemma requested_download_jar:
  "requested (snd (download_jar ev self meta_jar w))
     = (if download_needed ev self meta_jar w then requested w @ [mj_url meta_jar]
        else requested w)"
  by (simp add: download_jar_def Let_def split: option.splits)

lemma requested_JarsJar_update:
  "requested (snd (snd (JarsJar_update ev self meta_jar w)))
     = (if mj_sha1 meta_jar \<noteq> jj_jar_sha1_meta self \<and> download_needed ev self meta_jar w
        then requested w @ [mj_url meta_jar] else requested w)"
proof (cases "mj_sha1 meta_jar \<noteq> jj_jar_sha1_meta self")
  case False
  then show ?thesis by (simp add: JarsJar_update_def)
next
  case True
  obtain r1 w1 where d: "download_jar ev self meta_jar w = (r1, w1)"
    by (cases "download_jar ev self meta_jar w")
  obtain r2 w2 where x: "extract_bundle ev self w1 = (r2, w2)"
    by (cases "extract_bundle ev self w1")
  obtain r3 w3 where m: "mappingio ev self w2 = (r3, w3)"
    by (cases "mappingio ev self w2")
  have "requested w3 = requested w2"
    using requested_mappingio [of ev self w2] m by simp
  moreover have "requested w2 = requested w1"
    using requested_extract_bundle [of ev self w1] x by simp
  moreover have "requested w1
      = (if download_needed ev self meta_jar w then requested w @ [mj_url meta_jar]
         else requested w)"
    using requested_download_jar [of ev self meta_jar w] d by simp
  ultimately show ?thesis
    using True d x m
    by (simp add: JarsJar_update_def split: sum.splits option.splits)
qed

lemma download_needed_iff:
  "download_needed ev self meta_jar w \<longleftrightarrow>
     files w (jar_path self) = None \<or>
     (\<not> file_has_sha1 ev w (jar_path self) (mj_sha1 meta_jar) \<and>
      \<not> file_has_sha1 ev w (jar_bundle_path self) (mj_sha1 meta_jar))"
  by (auto simp: download_needed_def file_has_sha1_def split: option.splits)

text \<open>
  Claim C4, as amended. When the upstream hash differs from the recorded one,
  \<^verbatim>\<open>JarsJar.update\<close> requests the meta URL if and only if the canonical jar file does not exist,
  or neither the canonical file nor the bundle-variant file holds content with the upstream
  SHA-1 (the bundle-variant file is looked at only when the canonical file exists). In that
  case the bytes received are written to the canonical path by the download step; otherwise
  the download step changes nothing.
\<close>

theorem JarsJar_update_download_iff:
  assumes "mj_sha1 meta_jar \<noteq> jj_jar_sha1_meta self"
  shows "(requested (snd (snd (JarsJar_update ev self meta_jar w)))
            = requested w @ [mj_url meta_jar]
          \<longleftrightarrow> files w (jar_path self) = None \<or>
              (\<not> file_has_sha1 ev w (jar_path self) (mj_sha1 meta_jar) \<and>
               \<not> file_has_sha1 ev w (jar_bundle_path self) (mj_sha1 meta_jar))) \<and>
         (requested (snd (snd (JarsJar_update ev self meta_jar w))) = requested w
          \<longleftrightarrow> \<not> (files w (jar_path self) = None \<or>
              (\<not> file_has_sha1 ev w (jar_path self) (mj_sha1 meta_jar) \<and>
               \<not> file_has_sha1 ev w (jar_bundle_path self) (mj_sha1 meta_jar)))) \<and>
         (\<forall>content. download_needed ev self meta_jar w \<longrightarrow>
              requests_get ev (mj_url meta_jar) = Some content \<longrightarrow>
              files (snd (download_jar ev self meta_jar w)) (jar_path self) = Some content) \<and>
         (\<not> download_needed ev self meta_jar w \<longrightarrow>
              download_jar ev self meta_jar w = (Inr (), w))"
proof -
  have log: "requested (snd (snd (JarsJar_update ev self meta_jar w)))
      = (if download_needed ev self meta_jar w then requested w @ [mj_url meta_jar]
         else requested w)"
    using assms by (simp add: requested_JarsJar_update)
  have step: "\<forall>content. download_needed ev self meta_jar w \<longrightarrow>
      requests_get ev (mj_url meta_jar) = Some content \<longrightarrow>
      files (snd (download_jar ev self meta_jar w)) (jar_path self) = Some content"
    by (simp add: download_jar_def)
  have idle: "\<not> download_needed ev self meta_jar w \<longrightarrow>
      download_jar ev self meta_jar w = (Inr (), w)"
    by (simp add: download_jar_def)
  from log step idle show ?thesis
    unfolding download_needed_iff [symmetric] by simp
qed

text \<open>The artifact record of version 1.0 against a meta record with the hash of jar b. With
  jar a at the canonical path and jar b at the bundle-variant path nothing is requested; with
  jar a at the canonical path alone the URL is requested and jar b written.\<close>

theorem JarsJar_update_download_iff_witness:
  "mj_sha1 (meta_jar_1_0\<lparr>mj_sha1 := ''sha1:jar b'', mj_url := ''url b''\<rparr>)
     \<noteq> jj_jar_sha1_meta jars_jar_1_0 \<and>
   requested (snd (snd (JarsJar_update example_env jars_jar_1_0
       (meta_jar_1_0\<lparr>mj_sha1 := ''sha1:jar b'', mj_url := ''url b''\<rparr>)
       \<lparr>files = [''mappings/1.0-client.jar'' \<mapsto> ''jar a'',
                 ''mappings/1.0-client.bundle.jar'' \<mapsto> ''jar b''],
        requested = [], converted = []\<rparr>))) = [] \<and>
   requested (snd (snd (JarsJar_update example_env jars_jar_1_0
       (meta_jar_1_0\<lparr>mj_sha1 := ''sha1:jar b'', mj_url := ''url b''\<rparr>)
       \<lparr>files = [''mappings/1.0-client.jar'' \<mapsto> ''jar a''],
        requested = [], converted = []\<rparr>))) = [''url b''] \<and>
   files (snd (download_jar example_env jars_jar_1_0
       (meta_jar_1_0\<lparr>mj_sha1 := ''sha1:jar b'', mj_url := ''url b''\<rparr>)
       \<lparr>files = [''mappings/1.0-client.jar'' \<mapsto> ''jar a''],
        requested = [], converted = []\<rparr>)) (jar_path jars_jar_1_0) = Some ''jar b''"
proof -
  let ?mj = "meta_jar_1_0\<lparr>mj_sha1 := ''sha1:jar b'', mj_url := ''url b''\<rparr>"
  let ?both = "\<lparr>files = [''mappings/1.0-client.jar'' \<mapsto> ''jar a'',
                          ''mappings/1.0-client.bundle.jar'' \<mapsto> ''jar b''],
                 requested = [], converted = []\<rparr>"
  let ?one = "\<lparr>files = [''mappings/1.0-client.jar'' \<mapsto> ''jar a''],
                requested = [], converted = []\<rparr>"
  have gate: "mj_sha1 ?mj \<noteq> jj_jar_sha1_meta jars_jar_1_0"
    by (simp add: meta_jar_1_0_def jars_jar_1_0_def)
  have paths: "jar_path jars_jar_1_0 = ''mappings/1.0-client.jar''"
    "jar_bundle_path jars_jar_1_0 = ''mappings/1.0-client.bundle.jar''"
    by (simp_all add: jar_path_def jar_bundle_path_def with_suffix_def path_stem_def
          path_suffix_def jars_jar_1_0_def)
  have both: "file_has_sha1 example_env ?both (jar_bundle_path jars_jar_1_0) (mj_sha1 ?mj)"
    "files ?both (jar_path jars_jar_1_0) \<noteq> None"
    by (simp_all add: paths file_has_sha1_def example_env_def meta_jar_1_0_def)
  have one: "\<not> file_has_sha1 example_env ?one (jar_bundle_path jars_jar_1_0) (mj_sha1 ?mj)"
    "\<not> file_has_sha1 example_env ?one (jar_path jars_jar_1_0) (mj_sha1 ?mj)"
    by (simp_all add: paths file_has_sha1_def example_env_def meta_jar_1_0_def)
  have get: "requests_get example_env (mj_url ?mj) = Some ''jar b''"
    by (simp add: example_env_def example_urls_def)
  note thm_both = JarsJar_update_download_iff [OF gate, of example_env ?both]
  note thm_one = JarsJar_update_download_iff [OF gate, of example_env ?one]
  from thm_both both
  have r_both: "requested (snd (snd (JarsJar_update example_env jars_jar_1_0 ?mj ?both))) = []"
    by simp
  from thm_one one
  have r_one: "requested (snd (snd (JarsJar_update example_env jars_jar_1_0 ?mj ?one)))
      = [''url b'']"
    by (simp add: meta_jar_1_0_def)
  from one have "download_needed example_env jars_jar_1_0 ?mj ?one"
    by (simp add: download_needed_iff)
  with thm_one get
  have "files (snd (download_jar example_env jars_jar_1_0 ?mj ?one)) (jar_path jars_jar_1_0)
      = Some ''jar b''"
    by blast
  with gate r_both r_one show ?thesis by simp
qed

text \<open>The claim as it was written fails where the canonical file is missing and the
  bundle-variant file holds the upstream content: the URL is requested all the same and the
  bytes are written to the canonical path.\<close>

theorem JarsJar_update_download_counterexample:
  "mj_sha1 (meta_jar_1_0\<lparr>mj_sha1 := ''sha1:jar b'', mj_url := ''url b''\<rparr>)
     \<noteq> jj_jar_sha1_meta jars_jar_1_0 \<and>
   file_has_sha1 example_env
     \<lparr>files = [''mappings/1.0-client.bundle.jar'' \<mapsto> ''jar b''], requested = [],
      converted = []\<rparr>
     (jar_bundle_path jars_jar_1_0)
     (mj_sha1 (meta_jar_1_0\<lparr>mj_sha1 := ''sha1:jar b'', mj_url := ''url b''\<rparr>)) \<and>
   download_jar example_env jars_jar_1_0
       (meta_jar_1_0\<lparr>mj_sha1 := ''sha1:jar b'', mj_url := ''url b''\<rparr>)
       \<lparr>files = [''mappings/1.0-client.bundle.jar'' \<mapsto> ''jar b''], requested = [],
        converted = []\<rparr>
     = (Inr (),
        \<lparr>files = [''mappings/1.0-client.bundle.jar'' \<mapsto> ''jar b'',
                  ''mappings/1.0-client.jar'' \<mapsto> ''jar b''],
         requested = [''url b''], converted = []\<rparr>) \<and>
   requested (snd (snd (JarsJar_update example_env jars_jar_1_0
       (meta_jar_1_0\<lparr>mj_sha1 := ''sha1:jar b'', mj_url := ''url b''\<rparr>)
       \<lparr>files = [''mappings/1.0-client.bundle.jar'' \<mapsto> ''jar b''], requested = [],
        converted = []\<rparr>))) = [''url b'']"
  by (simp add: JarsJar_update_def download_jar_def download_needed_def extract_bundle_def
        mappingio_def jar_path_def map_path_def jar_bundle_path_def with_suffix_def
        path_stem_def path_suffix_def file_has_sha1_def example_env_def example_urls_def
        example_archives_def meta_jar_1_0_def jars_jar_1_0_def)


lemma extract_bundle_multi:
  assumes "files w (jar_path self) = Some archive"
    and "zip_file ev archive = Some jar_zip"
    and "jar_zip ''META-INF/versions.list'' = Some raw"
    and "decode_utf8 ev raw = Some versions_list"
    and "length (splitlines versions_list) > 1"
  shows "extract_bundle ev self w = (Inl MultiVersionBundle, w)"
  using assms by (simp add: extract_bundle_def)


text \<open>
  Claim C7, as amended. If, after the download step, the archive at the canonical path has a
  \<^verbatim>\<open>META-INF/versions.list\<close> of more than one line, \<^verbatim>\<open>JarsJar.update\<close> raises the
  multi-version-bundle error before it unwraps or converts anything: the record is as it was
  and the files are as the download step left them. So the canonical path holds the bundle
  that was fetched, if one was, and otherwise the file it held before; nothing is renamed and
  no inner jar is written.
\<close>

theorem JarsJar_update_multi_version_bundle:
  assumes "mj_sha1 meta_jar \<noteq> jj_jar_sha1_meta self"
    and "download_jar ev self meta_jar w = (Inr (), w1)"
    and "files w1 (jar_path self) = Some archive"
    and "zip_file ev archive = Some jar_zip"
    and "jar_zip ''META-INF/versions.list'' = Some raw"
    and "decode_utf8 ev raw = Some versions_list"
    and "length (splitlines versions_list) > 1"
  shows "JarsJar_update ev self meta_jar w = (Inl MultiVersionBundle, self, w1) \<and>
         files w1 (jar_path self) = Some archive \<and>
         (\<not> download_needed ev self meta_jar w \<longrightarrow> w1 = w)"
proof -
  have "extract_bundle ev self w1 = (Inl MultiVersionBundle, w1)"
    using assms(3-7) by (rule extract_bundle_multi)
  with assms(1,2) have "JarsJar_update ev self meta_jar w = (Inl MultiVersionBundle, self, w1)"
    by (simp add: JarsJar_update_def)
  moreover have "\<not> download_needed ev self meta_jar w \<longrightarrow> w1 = w"
    using assms(2) by (auto simp: download_jar_def)
  ultimately show ?thesis using assms(3) by simp
qed

text \<open>The two-version bundle already at the canonical path, with the hash the meta record
  names: nothing is requested, the error is raised and the files are untouched.\<close>

theorem JarsJar_update_multi_version_bundle_witness:
  "JarsJar_update example_env jars_jar_1_18 (meta_jar_1_18 ''sha1:bundle two'' ''url two'')
       \<lparr>files = [''mappings/1.18-server.jar'' \<mapsto> ''bundle two''], requested = [],
        converted = []\<rparr>
     = (Inl MultiVersionBundle, jars_jar_1_18,
        \<lparr>files = [''mappings/1.18-server.jar'' \<mapsto> ''bundle two''], requested = [],
         converted = []\<rparr>)"
proof -
  let ?mj = "meta_jar_1_18 ''sha1:bundle two'' ''url two''"
  let ?w = "\<lparr>files = [''mappings/1.18-server.jar'' \<mapsto> ''bundle two''], requested = [],
             converted = []\<rparr>"
  let ?list = "''hash'' @ [CHR 0x09] @ ''1.18'' @ [CHR 0x09] @ ''1.18/server.jar'' @ [CHR 0x0A]
           @ ''hash'' @ [CHR 0x09] @ ''1.19'' @ [CHR 0x09] @ ''1.19/server.jar''"
  let ?zip = "map_of
       [(''META-INF/versions.list'', ?list),
        (''META-INF/versions/1.18/server.jar'', ''inner jar''),
        (''META-INF/versions/1.19/server.jar'', ''other inner jar'')]"
  have gate: "mj_sha1 ?mj \<noteq> jj_jar_sha1_meta jars_jar_1_18"
    by (simp add: meta_jar_1_18_def jars_jar_1_18_def)
  have path: "jar_path jars_jar_1_18 = ''mappings/1.18-server.jar''"
    by (simp add: jar_path_def jars_jar_1_18_def)
  have dl: "download_jar example_env jars_jar_1_18 ?mj ?w = (Inr (), ?w)"
    by (simp add: download_jar_def download_needed_def path example_env_def meta_jar_1_18_def)
  have held: "files ?w (jar_path jars_jar_1_18) = Some ''bundle two''"
    by (simp add: path)
  have zip: "zip_file example_env ''bundle two'' = Some ?zip"
    by (simp add: example_env_def example_archives_def)
  have entry: "?zip ''META-INF/versions.list'' = Some ?list"
    by simp
  have dec: "decode_utf8 example_env ?list = Some ?list"
    by (simp add: example_env_def)
  have lines: "length (splitlines ?list) > 1"
    by (simp add: splitlines_def line_boundary_def)
  from JarsJar_update_multi_version_bundle [OF gate dl held zip entry dec lines]
  show ?thesis by simp
qed

text \<open>The claim as it was written fails when the bundle has to be downloaded: the error is
  raised after the download step has written the bundle to the canonical path, which held no
  file before.\<close>

theorem JarsJar_update_multi_version_bundle_counterexample:
  "files empty_world (jar_path jars_jar_1_18) = None \<and>
   JarsJar_update example_env jars_jar_1_18 (meta_jar_1_18 ''sha1:bundle two'' ''url two'')
       empty_world
     = (Inl MultiVersionBundle, jars_jar_1_18,
        \<lparr>files = [''mappings/1.18-server.jar'' \<mapsto> ''bundle two''],
         requested = [''url two''], converted = []\<rparr>) \<and>
   jar_path jars_jar_1_18 = ''mappings/1.18-server.jar''"
  by (simp add: JarsJar_update_def download_jar_def download_needed_def extract_bundle_def
        splitlines_def line_boundary_def jar_path_def example_env_def example_urls_def
        example_archives_def empty_world_def meta_jar_1_18_def jars_jar_1_18_def)




section \<open>The order of the maps\<close>

text \<open>
  Claim C5. After a dirtying update every inner map should have its keys in ascending order.
  \<^verbatim>\<open>Jars.update\<close> and \<^verbatim>\<open>Index.update\<close> re-sort an inner map only after an existing record was
  updated dirty; a record that is new is appended and the sort is skipped. Version 1.18 is
  first published with a server only, and the three stores are built from the empty ones.
  Then its descriptor is amended and lists a client too: \<^verbatim>\<open>Meta.update\<close> puts the client
  before the server, but \<^verbatim>\<open>Jars.update\<close> and, from its result, \<^verbatim>\<open>Index.update\<close> are dirty and
  leave the inner map of 1.18 with the keys server, client.
\<close>

theorem inner_map_unsorted_after_insert:
  "Meta_update example_env Meta_empty [file_1_18] = (Inr True, meta_server_only) \<and>
   fst (Jars_update example_env meta_server_only Jars_empty empty_world) = Inr True \<and>
   fst (snd (Jars_update example_env meta_server_only Jars_empty empty_world))
     = jars_server_only \<and>
   Index_update Index_empty jars_server_only = (Inr True, index_server_only) \<and>
   Meta_update example_env meta_server_only [file_1_18_with_client]
     = (Inr True, meta_client_server) \<and>
   fst (Jars_update example_env meta_client_server jars_server_only
          (snd (snd (Jars_update example_env meta_server_only Jars_empty empty_world))))
     = Inr True \<and>
   fst (snd (Jars_update example_env meta_client_server jars_server_only
          (snd (snd (Jars_update example_env meta_server_only Jars_empty empty_world)))))
     = jars_server_client \<and>
   fst (Index_update index_server_only jars_server_client) = Inr True \<and>
   map (\<lambda>version. (fst version, map fst (snd version)))
       (versions jars_server_client)
     = [(''1.18'', [''server'', ''client''])] \<and>
   map (\<lambda>version. (fst version, map fst (snd version)))
       (mappings (snd (Index_update index_server_only jars_server_client)))
     = [(''1.18'', [''server'', ''client''])] \<and>
   \<not> sorted [''server'', ''client'']"
proof -
  have first: "Meta_update example_env Meta_empty [file_1_18] = (Inr True, meta_server_only)"
    "fst (Jars_update example_env meta_server_only Jars_empty empty_world) = Inr True"
    "fst (snd (Jars_update example_env meta_server_only Jars_empty empty_world))
       = jars_server_only"
    "Index_update Index_empty jars_server_only = (Inr True, index_server_only)"
    by code_simp+
  have meta: "Meta_update example_env meta_server_only [file_1_18_with_client]
      = (Inr True, meta_client_server)"
    by code_simp
  have jars: "fst (Jars_update example_env meta_client_server jars_server_only
          (snd (snd (Jars_update example_env meta_server_only Jars_empty empty_world))))
      = Inr True"
    "fst (snd (Jars_update example_env meta_client_server jars_server_only
          (snd (snd (Jars_update example_env meta_server_only Jars_empty empty_world)))))
      = jars_server_client"
    by code_simp+
  have index: "Index_update index_server_only jars_server_client
      = (Inr True,
         \<lparr>timestamp = datetime_min,
          mappings = [(''1.18'', [(''server'', from_jar jars_jar_1_18),
                                  (''client'', from_jar jars_jar_1_18_client)])]\<rparr>)"
    by code_simp
  have keys: "map (\<lambda>version. (fst version, map fst (snd version))) (versions jars_server_client)
      = [(''1.18'', [''server'', ''client''])]"
    by (simp add: jars_server_client_def)
  from first meta jars index keys show ?thesis by simp
qed





section \<open>Running \<^verbatim>\<open>Jars.update\<close> twice\<close>














section \<open>Running \<^verbatim>\<open>Index.update\<close> twice\<close>









section \<open>Running \<^verbatim>\<open>Meta.update\<close> twice\<close>













section \<open>Running an update twice\<close>




end
